theory Spec2Isabelle
  imports Main
begin

section \<open>Identifiers, clock and the store driver\<close>

text \<open>
  The application keeps five MongoDB collections (documents, document_history,
  notifications, users, departments) and reaches them through
  \<^verbatim>\<open>BaseRepository\<close> (src/app/db/repositories/base.py). A collection is
  modelled as the list of its records in natural (insertion) order. What the
  process cannot decide itself is supplied by an environment: the wall clock
  (\<^verbatim>\<open>datetime.utcnow()\<close>, \<^verbatim>\<open>datetime.now(timezone.utc)\<close>, read as one
  instant per request), the ObjectId the driver allots to an inserted record,
  and whether the driver raises on a write. Reads are taken not to raise.
\<close>

datatype coll = Documents | DocumentHistory | Notifications

text \<open>
  One attempted collection write and how it ended for the caller of the
  repository method: carried out, failed in the driver with the exception
  caught inside the repository method (\<^verbatim>\<open>update_by_id\<close>), or failed with
  the exception leaving the repository method.
\<close>

datatype outcome = Done | Swallowed | Raised

datatype event = Write coll outcome

record env =
  now :: nat
  year :: int
  fault :: "nat \<Rightarrow> bool"
  fresh :: "nat \<Rightarrow> string"

text \<open>
  \<^verbatim>\<open>HTTPException\<close> with the status codes the endpoints use, and
  \<^verbatim>\<open>DriverError\<close> for an exception of the database driver that no handler
  catches.
\<close>

datatype http_status =
  HTTP_400_BAD_REQUEST | HTTP_403_FORBIDDEN | HTTP_404_NOT_FOUND
  | HTTP_500_INTERNAL_SERVER_ERROR

datatype error =
  HTTPException http_status string | DriverError | AttributeError | ValueError
  | InvalidId | DuplicateKeyError

text \<open>
  The error kinds of the specification, read off the status code: 404 is
  NotFound, 400 is ValidationError, 403 is Forbidden; anything else is an
  internal failure.
\<close>

datatype error_kind = NotFound | ValidationError | Forbidden | Internal

fun kind_of :: "error \<Rightarrow> error_kind" where
  "kind_of (HTTPException HTTP_404_NOT_FOUND _) = NotFound"
| "kind_of (HTTPException HTTP_400_BAD_REQUEST _) = ValidationError"
| "kind_of (HTTPException HTTP_403_FORBIDDEN _) = Forbidden"
| "kind_of _ = Internal"

text \<open>
  \<^verbatim>\<open>ObjectId(id)\<close> of the bson package on a string: 24 hexadecimal digits, or
  \<^verbatim>\<open>InvalidId\<close> is raised (here \<open>None\<close>). \<^verbatim>\<open>str\<close> of an ObjectId is the
  lower-case rendering, which is how the \<^verbatim>\<open>_id\<close> of a stored record is held.
\<close>

definition hexdigit :: "char \<Rightarrow> bool" where
  "hexdigit c = (c \<in> set ''0123456789abcdefABCDEF'')"

definition lower_hex :: "char \<Rightarrow> char" where
  "lower_hex c =
     (if c = CHR ''A'' then CHR ''a'' else if c = CHR ''B'' then CHR ''b''
      else if c = CHR ''C'' then CHR ''c'' else if c = CHR ''D'' then CHR ''d''
      else if c = CHR ''E'' then CHR ''e'' else if c = CHR ''F'' then CHR ''f''
      else c)"

definition ObjectId :: "string \<Rightarrow> string option" where
  "ObjectId s =
     (if length s = 24 \<and> list_all hexdigit s then Some (map lower_hex s) else None)"

text \<open>Python's \<^verbatim>\<open>str(x)\<close> of an optional string, and truthiness of one.\<close>

definition str_opt :: "string option \<Rightarrow> string" where
  "str_opt x = (case x of None \<Rightarrow> ''None'' | Some s \<Rightarrow> s)"

definition truthy :: "string option \<Rightarrow> bool" where
  "truthy x = (case x of None \<Rightarrow> False | Some s \<Rightarrow> s \<noteq> [])"

section \<open>Records of the collections\<close>

text \<open>
  A reference to another record is held either as a BSON ObjectId (the seed
  script stores \<^verbatim>\<open>dept["_id"]\<close> in a user) or as a string (the register and
  update endpoints store the request's string). A query filter on a string
  matches the string form only; Python's \<^verbatim>\<open>str\<close> maps both to the same text.
\<close>

datatype idval = Oid string | Str string

fun str_id :: "idval \<Rightarrow> string" where
  "str_id (Oid h) = h"
| "str_id (Str t) = t"

datatype UserRole = ADMIN | DEPARTMENT_HEAD | EMPLOYEE

text \<open>
  A user of the users collection, with the fields the lifecycle code reads;
  \<open>u_is_active = None\<close> is a record without the key.
\<close>

record user =
  u_id :: string
  u_department_id :: idval
  u_is_active :: "bool option"

record department =
  dp_id :: string
  dp_name :: "string option"

text \<open>The authenticated user, as \<^verbatim>\<open>require_authenticated\<close> hands it over.\<close>

record actor =
  a_id :: string
  a_department_id :: string
  a_role :: UserRole
  a_full_name :: "string option"

datatype DocumentStatus = DRAFT | PENDING | IN_PROGRESS | COMPLETED | ARCHIVED

datatype DocumentPriority = LOW | MEDIUM | HIGH | URGENT

datatype DocumentType = REQUEST | RESPONSE | MEMO | REPORT | NOTIFICATION | OTHER

record FileInfo =
  file_id :: string
  filename :: string
  content_type :: string
  size_bytes :: nat
  uploaded_at :: nat
  uploaded_by :: string

record DocumentMetadata =
  deadline :: "nat option"
  tags :: "string list"
  custom_fields :: "(string \<times> string) list"

text \<open>
  A record of the documents collection; \<open>d_metadata = None\<close> is the empty
  dictionary, \<open>d_archived_at = None\<close> a record without the key.
\<close>

record document =
  d_id :: string
  d_title :: string
  d_description :: string
  d_document_type :: DocumentType
  d_priority :: DocumentPriority
  d_status :: DocumentStatus
  d_creator_id :: string
  d_creator_department_id :: string
  d_current_holder_department_id :: string
  d_assigned_to_user_id :: "string option"
  d_metadata :: "DocumentMetadata option"
  d_document_number :: string
  d_files :: "FileInfo list"
  d_created_at :: nat
  d_updated_at :: nat
  d_archived_at :: "nat option"

datatype DocumentAction =
  CREATED | FORWARDED | VIEWED | RESPONDED | STATUS_CHANGED | MODIFIED
  | ACT_ARCHIVED | FILE_ADDED | FILE_REMOVED | ASSIGNED

text \<open>
  An entry of document_history. The keyword arguments of
  \<^verbatim>\<open>create_audit_entry\<close> are optional fields; \<open>h_meta_*\<close> are the keys of the
  \<^verbatim>\<open>metadata\<close> dictionary the file endpoints write.
\<close>

record history_entry =
  h_id :: string
  h_document_id :: string
  h_action :: DocumentAction
  h_performed_by :: string
  h_performed_by_name :: string
  h_performed_by_department :: string
  h_from_department_id :: "string option"
  h_to_department_id :: "string option"
  h_old_status :: "DocumentStatus option"
  h_new_status :: "DocumentStatus option"
  h_status_reason :: "string option"
  h_comment :: "string option"
  h_meta_file_id :: "string option"
  h_meta_filename :: "string option"
  h_meta_size :: "nat option"
  h_timestamp :: nat
  h_created_at :: nat
  h_updated_at :: nat

datatype NotificationType =
  DOCUMENT_RECEIVED | DOCUMENT_FORWARDED | RESPONSE_RECEIVED
  | NT_STATUS_CHANGED | DEADLINE_APPROACHING

record notification =
  n_id :: string
  n_user_id :: string
  n_document_id :: string
  n_type :: NotificationType
  n_title :: string
  n_message :: string
  n_is_read :: bool
  n_email_sent :: bool
  n_metadata :: "(string \<times> string) list"
  n_read_at :: "nat option"
  n_created_at :: nat
  n_updated_at :: nat

record db =
  documents :: "document list"
  document_history :: "history_entry list"
  notifications :: "notification list"
  users :: "user list"
  departments :: "department list"
  document_number_unique :: bool
  writes :: "event list"

section \<open>BaseRepository\<close>

text \<open>
  Every write consults the environment: the k-th write attempted since the
  store was set up raises in the driver iff \<open>fault e k\<close>. The attempt is
  recorded in \<open>writes\<close>, which is only a record of what was tried and in which
  order; no operation reads it back except to number the next attempt.
  \<open>caught\<close> says whether the repository method catches the exception itself,
  \<open>rejected\<close> that the server refuses the write (a unique index).
\<close>

definition attempt_if :: "env \<Rightarrow> coll \<Rightarrow> bool \<Rightarrow> bool \<Rightarrow> db \<Rightarrow> bool \<times> db" where
  "attempt_if e c caught rejected s =
     (let bad = (fault e (length (writes s)) \<or> rejected);
          how = (if bad then (if caught then Swallowed else Raised) else Done)
      in (bad, s\<lparr>writes := writes s @ [Write c how]\<rparr>))"

definition attempt :: "env \<Rightarrow> coll \<Rightarrow> bool \<Rightarrow> db \<Rightarrow> bool \<times> db" where
  "attempt e c caught s = attempt_if e c caught False s"

text \<open>The ObjectId the driver puts on the record inserted by the next write.\<close>

definition next_id :: "env \<Rightarrow> db \<Rightarrow> string" where
  "next_id e s = fresh e (length (writes s))"

fun upd_first :: "('a \<Rightarrow> bool) \<Rightarrow> ('a \<Rightarrow> 'a) \<Rightarrow> 'a list \<Rightarrow> 'a list" where
  "upd_first P f [] = []"
| "upd_first P f (x # xs) = (if P x then f x # xs else x # upd_first P f xs)"

text \<open>\<^verbatim>\<open>find_by_id\<close>: an invalid id and a missing record both give \<open>None\<close>.\<close>

definition find_by_id :: "('a \<Rightarrow> string) \<Rightarrow> 'a list \<Rightarrow> string \<Rightarrow> 'a option" where
  "find_by_id key xs i =
     (case ObjectId i of None \<Rightarrow> None | Some oid \<Rightarrow> find (\<lambda>x. key x = oid) xs)"

text \<open>
  \<^verbatim>\<open>find_many(filter, skip, limit)\<close> without a sort: the matching records in
  natural order, \<open>skip\<close> dropped, at most \<open>limit\<close> kept. The defaults of the
  signature are \<open>skip = 0\<close> and \<open>limit = 20\<close>.
\<close>

definition find_many :: "('a \<Rightarrow> bool) \<Rightarrow> nat \<Rightarrow> nat \<Rightarrow> 'a list \<Rightarrow> 'a list" where
  "find_many flt skip limit xs = take limit (drop skip (filter flt xs))"

subsection \<open>NotificationRepository\<close>

text \<open>\<^verbatim>\<open>create\<close>: stamps both timestamps, inserts, returns the record with its id.\<close>

definition notif_create :: "env \<Rightarrow> notification \<Rightarrow> db \<Rightarrow> (error + notification) \<times> db" where
  "notif_create e n s =
     (let (bad, s1) = attempt e Notifications False s in
      if bad then (Inl DriverError, s1)
      else (let n1 = n\<lparr>n_created_at := now e, n_updated_at := now e, n_id := next_id e s\<rparr>
            in (Inr n1, s1\<lparr>notifications := notifications s1 @ [n1]\<rparr>)))"

text \<open>
  \<^verbatim>\<open>update_by_id\<close> on the notifications: the \<^verbatim>\<open>$set\<close> dictionary is the
  record update \<open>f\<close>, to which \<^verbatim>\<open>updated_at\<close> is added. Any exception is
  swallowed and \<open>None\<close> returned.
\<close>

definition notif_update_by_id ::
  "env \<Rightarrow> string \<Rightarrow> (notification \<Rightarrow> notification) \<Rightarrow> db \<Rightarrow> notification option \<times> db" where
  "notif_update_by_id e i f s =
     (case ObjectId i of
        None \<Rightarrow> (None, s)
      | Some oid \<Rightarrow>
          (let (bad, s1) = attempt e Notifications True s in
           if bad then (None, s1)
           else (case find (\<lambda>n. n_id n = oid) (notifications s1) of
                   None \<Rightarrow> (None, s1)
                 | Some n \<Rightarrow>
                     (let g = (\<lambda>n. (f n)\<lparr>n_updated_at := now e\<rparr>)
                      in (Some (g n),
                          s1\<lparr>notifications :=
                               upd_first (\<lambda>n. n_id n = oid) g (notifications s1)\<rparr>)))))"

text \<open>
  \<^verbatim>\<open>update_many\<close>: every record matching the filter is updated; the result is
  the driver's \<^verbatim>\<open>modified_count\<close>, the number of records the update changed.
\<close>

definition notif_update_many ::
  "env \<Rightarrow> (notification \<Rightarrow> bool) \<Rightarrow> (notification \<Rightarrow> notification) \<Rightarrow> db \<Rightarrow> (error + nat) \<times> db" where
  "notif_update_many e P f s =
     (let (bad, s1) = attempt e Notifications False s in
      if bad then (Inl DriverError, s1)
      else (let g = (\<lambda>n. (f n)\<lparr>n_updated_at := now e\<rparr>);
                ns = notifications s1
            in (Inr (length (filter (\<lambda>n. P n \<and> g n \<noteq> n) ns)),
                s1\<lparr>notifications := map (\<lambda>n. if P n then g n else n) ns\<rparr>)))"

definition mark_as_read :: "env \<Rightarrow> string \<Rightarrow> db \<Rightarrow> notification option \<times> db" where
  "mark_as_read e notification_id s =
     notif_update_by_id e notification_id
       (\<lambda>n. n\<lparr>n_is_read := True, n_read_at := Some (now e)\<rparr>) s"

definition mark_all_as_read :: "env \<Rightarrow> string \<Rightarrow> db \<Rightarrow> (error + nat) \<times> db" where
  "mark_all_as_read e user_id s =
     notif_update_many e (\<lambda>n. n_user_id n = user_id \<and> n_is_read n = False)
       (\<lambda>n. n\<lparr>n_is_read := True, n_read_at := Some (now e)\<rparr>) s"

section \<open>Document numbers\<close>

text \<open>
  Python's formatting and parsing of integers, on ASCII text: \<open>dec\<close> is
  \<^verbatim>\<open>f"{n}"\<close> of a non-negative integer (the year, a sequence number), \<open>fmt_05d\<close> is \<^verbatim>\<open>f"{n:05d}"\<close>
  (zero-padded to width 5, the sign counted in the width), \<open>py_int\<close> is
  \<^verbatim>\<open>int(s)\<close>: surrounding white space stripped, one optional sign, digits
  with single underscores between them, \<^verbatim>\<open>ValueError\<close> otherwise.
\<close>

definition digit_char :: "int \<Rightarrow> char" where
  "digit_char d = ''0123456789'' ! nat (d mod 10)"

function dec :: "int \<Rightarrow> string" where
  "dec n = (if n < 10 then [digit_char n] else dec (n div 10) @ [digit_char (n mod 10)])"
  by pat_completeness auto
termination
  by (relation "measure nat") (auto intro: int_div_less_self)

definition zfill :: "nat \<Rightarrow> string \<Rightarrow> string" where
  "zfill w t = replicate (w - length t) CHR ''0'' @ t"

definition fmt_05d :: "int \<Rightarrow> string" where
  "fmt_05d n = (if n < 0 then CHR ''-'' # zfill 4 (dec (- n)) else zfill 5 (dec n))"

definition digit_val :: "char \<Rightarrow> int option" where
  "digit_val c =
     map_of [(CHR ''0'', 0), (CHR ''1'', 1), (CHR ''2'', 2), (CHR ''3'', 3), (CHR ''4'', 4),
             (CHR ''5'', 5), (CHR ''6'', 6), (CHR ''7'', 7), (CHR ''8'', 8), (CHR ''9'', 9)] c"

definition is_space :: "char \<Rightarrow> bool" where
  "is_space c = (c \<in> set [CHR '' '', CHR 0x09, CHR 0x0A, CHR 0x0B, CHR 0x0C, CHR 0x0D])"

definition strip :: "string \<Rightarrow> string" where
  "strip t = rev (dropWhile is_space (rev (dropWhile is_space t)))"

text \<open>The digits after the sign; \<open>prev\<close> says that the last character was a digit.\<close>

fun int_body :: "int \<Rightarrow> bool \<Rightarrow> string \<Rightarrow> int option" where
  "int_body acc prev [] = (if prev then Some acc else None)"
| "int_body acc prev (c # cs) =
     (if c = CHR ''_'' then (if prev \<and> cs \<noteq> [] then int_body acc False cs else None)
      else (case digit_val c of
              None \<Rightarrow> None
            | Some d \<Rightarrow> int_body (10 * acc + d) True cs))"

definition py_int :: "string \<Rightarrow> error + int" where
  "py_int t =
     (let u = strip t;
          neg = (case u of [] \<Rightarrow> False | c # _ \<Rightarrow> c = CHR ''-'');
          body = (case u of [] \<Rightarrow> [] | c # cs \<Rightarrow> if c = CHR ''-'' \<or> c = CHR ''+'' then cs else u)
      in (case int_body 0 False body of
            None \<Rightarrow> Inl ValueError
          | Some v \<Rightarrow> Inr (if neg then - v else v)))"

text \<open>
  The aggregation pipeline of \<^verbatim>\<open>generate_document_number\<close>:
  \<^verbatim>\<open>$match\<close> keeps the numbers that begin with \<^verbatim>\<open>DOC-<year>-\<close>,
  \<^verbatim>\<open>$project\<close> takes \<^verbatim>\<open>$substr [number, 10, 5]\<close> (at most 5 characters from
  index 10, fewer when the string ends), \<^verbatim>\<open>$sort\<close> descending and
  \<^verbatim>\<open>$limit 1\<close> keep the greatest of these strings in MongoDB's string order,
  which compares character codes.
\<close>

definition starts_with :: "string \<Rightarrow> string \<Rightarrow> bool" where
  "starts_with p t = (take (length p) t = p)"

definition substr :: "string \<Rightarrow> nat \<Rightarrow> nat \<Rightarrow> string" where
  "substr t start len = take len (drop start t)"

fun str_less :: "string \<Rightarrow> string \<Rightarrow> bool" where
  "str_less [] [] = False"
| "str_less [] (c # cs) = True"
| "str_less (c # cs) [] = False"
| "str_less (c # cs) (d # ds) =
     ((of_char c :: nat) < of_char d \<or> (c = d \<and> str_less cs ds))"

fun greatest :: "string list \<Rightarrow> string option" where
  "greatest [] = None"
| "greatest (t # ts) =
     (case greatest ts of
        None \<Rightarrow> Some t
      | Some m \<Rightarrow> Some (if str_less t m then m else t))"

definition year_prefix :: "int \<Rightarrow> string" where
  "year_prefix y = ''DOC-'' @ dec y @ ''-''"

definition generate_document_number :: "env \<Rightarrow> db \<Rightarrow> error + string" where
  "generate_document_number e s =
     (let matched = filter (\<lambda>d. starts_with (year_prefix (year e)) (d_document_number d))
                      (documents s);
          number_parts = map (\<lambda>d. substr (d_document_number d) 10 5) matched
      in (case greatest number_parts of
            None \<Rightarrow> Inr (year_prefix (year e) @ fmt_05d 1)
          | Some number_part \<Rightarrow>
              (case py_int number_part of
                 Inl err \<Rightarrow> Inl err
               | Inr last_number \<Rightarrow> Inr (year_prefix (year e) @ fmt_05d (last_number + 1)))))"

section \<open>DocumentRepository\<close>

text \<open>The dictionary the create endpoint hands to the repository.\<close>

record new_document =
  nd_title :: string
  nd_description :: string
  nd_document_type :: DocumentType
  nd_priority :: DocumentPriority
  nd_creator_id :: string
  nd_creator_department_id :: string
  nd_current_holder_department_id :: string
  nd_assigned_to_user_id :: "string option"
  nd_metadata :: "DocumentMetadata option"

text \<open>
  \<^verbatim>\<open>create_document\<close>: the number, the default status \<^verbatim>\<open>draft\<close> and the
  empty file list are added (the endpoint's dictionary has neither key), then
  \<^verbatim>\<open>BaseRepository.create\<close> stamps the times and inserts. Under the unique
  index the insert of a number already in the collection is refused.
\<close>

definition doc_create_document :: "env \<Rightarrow> new_document \<Rightarrow> db \<Rightarrow> (error + document) \<times> db" where
  "doc_create_document e nd s =
     (case generate_document_number e s of
        Inl err \<Rightarrow> (Inl err, s)
      | Inr document_number \<Rightarrow>
          (let clash = (document_number_unique s
                          \<and> document_number \<in> set (map d_document_number (documents s)));
               (bad, s1) = attempt_if e Documents False clash s
           in
           if bad
           then (Inl (if fault e (length (writes s)) then DriverError else DuplicateKeyError), s1)
           else (let d = \<lparr>d_id = next_id e s,
                          d_title = nd_title nd,
                          d_description = nd_description nd,
                          d_document_type = nd_document_type nd,
                          d_priority = nd_priority nd,
                          d_status = DRAFT,
                          d_creator_id = nd_creator_id nd,
                          d_creator_department_id = nd_creator_department_id nd,
                          d_current_holder_department_id = nd_current_holder_department_id nd,
                          d_assigned_to_user_id = nd_assigned_to_user_id nd,
                          d_metadata = nd_metadata nd,
                          d_document_number = document_number,
                          d_files = [],
                          d_created_at = now e,
                          d_updated_at = now e,
                          d_archived_at = None\<rparr>
                 in (Inr d, s1\<lparr>documents := documents s1 @ [d]\<rparr>))))"

text \<open>\<^verbatim>\<open>update_by_id\<close> on the documents; exceptions are swallowed.\<close>

definition doc_update_by_id ::
  "env \<Rightarrow> string \<Rightarrow> (document \<Rightarrow> document) \<Rightarrow> db \<Rightarrow> document option \<times> db" where
  "doc_update_by_id e i f s =
     (case ObjectId i of
        None \<Rightarrow> (None, s)
      | Some oid \<Rightarrow>
          (let (bad, s1) = attempt e Documents True s in
           if bad then (None, s1)
           else (case find (\<lambda>d. d_id d = oid) (documents s1) of
                   None \<Rightarrow> (None, s1)
                 | Some d \<Rightarrow>
                     (let g = (\<lambda>d. (f d)\<lparr>d_updated_at := now e\<rparr>)
                      in (Some (g d),
                          s1\<lparr>documents := upd_first (\<lambda>d. d_id d = oid) g (documents s1)\<rparr>)))))"

definition update_status :: "env \<Rightarrow> string \<Rightarrow> DocumentStatus \<Rightarrow> db \<Rightarrow> document option \<times> db" where
  "update_status e document_id new_status s =
     doc_update_by_id e document_id (\<lambda>d. d\<lparr>d_status := new_status\<rparr>) s"

definition repo_forward_document ::
  "env \<Rightarrow> string \<Rightarrow> string \<Rightarrow> string option \<Rightarrow> db \<Rightarrow> document option \<times> db" where
  "repo_forward_document e document_id to_department_id assigned_to_user_id s =
     doc_update_by_id e document_id
       (\<lambda>d. d\<lparr>d_current_holder_department_id := to_department_id,
              d_assigned_to_user_id := assigned_to_user_id\<rparr>) s"

definition repo_archive_document :: "env \<Rightarrow> string \<Rightarrow> db \<Rightarrow> document option \<times> db" where
  "repo_archive_document e document_id s =
     doc_update_by_id e document_id
       (\<lambda>d. d\<lparr>d_status := ARCHIVED, d_archived_at := Some (now e)\<rparr>) s"

text \<open>
  \<^verbatim>\<open>add_file\<close> and \<^verbatim>\<open>remove_file\<close> call the driver's \<^verbatim>\<open>update_one\<close>
  outside any handler: an invalid id and a driver exception both leave the
  method. The record is read back when \<^verbatim>\<open>modified_count > 0\<close>.
\<close>

definition doc_update_one ::
  "env \<Rightarrow> string \<Rightarrow> (document \<Rightarrow> document) \<Rightarrow> db \<Rightarrow> (error + document option) \<times> db" where
  "doc_update_one e document_id f s =
     (case ObjectId document_id of
        None \<Rightarrow> (Inl InvalidId, s)
      | Some oid \<Rightarrow>
          (let (bad, s1) = attempt e Documents False s in
           if bad then (Inl DriverError, s1)
           else (case find (\<lambda>d. d_id d = oid) (documents s1) of
                   None \<Rightarrow> (Inr None, s1)
                 | Some d \<Rightarrow>
                     (let s2 = s1\<lparr>documents := upd_first (\<lambda>d. d_id d = oid) f (documents s1)\<rparr>
                      in if f d \<noteq> d
                         then (Inr (find_by_id d_id (documents s2) document_id), s2)
                         else (Inr None, s2)))))"

definition add_file :: "env \<Rightarrow> string \<Rightarrow> FileInfo \<Rightarrow> db \<Rightarrow> (error + document option) \<times> db" where
  "add_file e document_id file_info s =
     doc_update_one e document_id
       (\<lambda>d. d\<lparr>d_files := d_files d @ [file_info], d_updated_at := now e\<rparr>) s"

definition remove_file :: "env \<Rightarrow> string \<Rightarrow> string \<Rightarrow> db \<Rightarrow> (error + document option) \<times> db" where
  "remove_file e document_id fid s =
     doc_update_one e document_id
       (\<lambda>d. d\<lparr>d_files := filter (\<lambda>f. file_id f \<noteq> fid) (d_files d), d_updated_at := now e\<rparr>) s"

section \<open>UserRepository\<close>

text \<open>
  \<^verbatim>\<open>find_by_department\<close> passes only the filter to \<^verbatim>\<open>find_many\<close>, so the
  defaults \<open>skip = 0\<close> and \<open>limit = 20\<close> of that method apply. The filter
  compares the stored value with the string.
\<close>

definition find_by_department :: "string \<Rightarrow> db \<Rightarrow> user list" where
  "find_by_department department_id s =
     find_many (\<lambda>u. u_department_id u = Str department_id) 0 20 (users s)"

section \<open>DocumentHistoryRepository and the audit helper\<close>

definition create_history_entry :: "env \<Rightarrow> history_entry \<Rightarrow> db \<Rightarrow> (error + history_entry) \<times> db" where
  "create_history_entry e h s =
     (let (bad, s1) = attempt e DocumentHistory False s in
      if bad then (Inl DriverError, s1)
      else (let h1 = h\<lparr>h_timestamp := now e, h_created_at := now e, h_updated_at := now e,
                        h_id := next_id e s\<rparr>
            in (Inr h1, s1\<lparr>document_history := document_history s1 @ [h1]\<rparr>)))"

text \<open>The fixed keys of an entry; every optional key is absent.\<close>

definition history_data ::
  "string \<Rightarrow> DocumentAction \<Rightarrow> actor \<Rightarrow> history_entry" where
  "history_data document_id action usr =
     \<lparr>h_id = [], h_document_id = document_id, h_action = action,
      h_performed_by = a_id usr,
      h_performed_by_name = (case a_full_name usr of None \<Rightarrow> ''Unknown'' | Some n \<Rightarrow> n),
      h_performed_by_department = a_department_id usr,
      h_from_department_id = None, h_to_department_id = None,
      h_old_status = None, h_new_status = None, h_status_reason = None,
      h_comment = None, h_meta_file_id = None, h_meta_filename = None, h_meta_size = None,
      h_timestamp = 0, h_created_at = 0, h_updated_at = 0\<rparr>"

text \<open>\<^verbatim>\<open>create_audit_entry\<close>; \<open>kwargs\<close> sets the keyword arguments.\<close>

definition create_audit_entry ::
  "env \<Rightarrow> string \<Rightarrow> DocumentAction \<Rightarrow> actor \<Rightarrow> (history_entry \<Rightarrow> history_entry) \<Rightarrow> db
     \<Rightarrow> (error + unit) \<times> db" where
  "create_audit_entry e document_id action usr kwargs s =
     (case create_history_entry e (kwargs (history_data document_id action usr)) s of
        (Inl err, s1) \<Rightarrow> (Inl err, s1)
      | (Inr _, s1) \<Rightarrow> (Inr (), s1))"

section \<open>NotificationService\<close>

definition create_notification ::
  "env \<Rightarrow> string \<Rightarrow> string \<Rightarrow> NotificationType \<Rightarrow> string \<Rightarrow> string
     \<Rightarrow> (string \<times> string) list \<Rightarrow> db \<Rightarrow> (error + notification) \<times> db" where
  "create_notification e user_id document_id notification_type title message metadata s =
     notif_create e
       \<lparr>n_id = [], n_user_id = user_id, n_document_id = document_id,
        n_type = notification_type, n_title = title, n_message = message,
        n_is_read = False, n_email_sent = False, n_metadata = metadata,
        n_read_at = None, n_created_at = 0, n_updated_at = 0\<rparr> s"

text \<open>
  \<^verbatim>\<open>try: notif = await self.create_notification(...); notifications.append(notif)
  except Exception: logger.error(...)\<close>: a failed creation is logged and
  adds nothing to the list.
\<close>

definition try_notify :: "(error + notification) \<times> db \<Rightarrow> notification list \<times> db" where
  "try_notify r = (case r of (Inl _, s1) \<Rightarrow> ([], s1) | (Inr notif, s1) \<Rightarrow> ([notif], s1))"

definition notify_document_created ::
  "env \<Rightarrow> document \<Rightarrow> string option \<Rightarrow> db \<Rightarrow> notification list \<times> db" where
  "notify_document_created e doc assigned_user_id s =
     (case assigned_user_id of
        None \<Rightarrow> ([], s)
      | Some uid \<Rightarrow>
          if uid = [] then ([], s)
          else try_notify
                 (create_notification e uid (d_id doc) DOCUMENT_RECEIVED
                    (''New Document Assigned: '' @ d_document_number doc)
                    (''You have been assigned document '' @ [CHR 0x27] @ d_title doc
                       @ [CHR 0x27] @ '' ('' @ d_document_number doc @ '')'')
                    [(''action'', ''assigned'')] s))"

text \<open>
  The loop of \<^verbatim>\<open>notify_document_forwarded\<close> over the users of the target
  department: one notification for each user whose \<^verbatim>\<open>is_active\<close> is true or
  missing; a failed creation is logged and the loop goes on.
\<close>

fun notify_users ::
  "(user \<Rightarrow> db \<Rightarrow> (error + notification) \<times> db) \<Rightarrow> user list \<Rightarrow> db
     \<Rightarrow> notification list \<times> db" where
  "notify_users mk [] s = ([], s)"
| "notify_users mk (u # us) s =
     (if (case u_is_active u of None \<Rightarrow> True | Some b \<Rightarrow> b)
      then (let (n1, s1) = try_notify (mk u s);
                (ns, s2) = notify_users mk us s1
            in (n1 @ ns, s2))
      else notify_users mk us s)"

text \<open>
  \<^verbatim>\<open>document\<close> is what the repository returned and may be \<^verbatim>\<open>None\<close>, on
  which \<^verbatim>\<open>document.get\<close> raises \<^verbatim>\<open>AttributeError\<close>.
\<close>

definition notify_document_forwarded ::
  "env \<Rightarrow> document option \<Rightarrow> string \<Rightarrow> string \<Rightarrow> string option \<Rightarrow> string \<Rightarrow> db
     \<Rightarrow> (error + notification list) \<times> db" where
  "notify_document_forwarded e document from_department_id to_department_id assigned_user_id
       forwarded_by_name s =
     (case document of
        None \<Rightarrow> (Inl AttributeError, s)
      | Some doc \<Rightarrow>
          (let dept_name =
                 (case find_by_id dp_id (departments s) to_department_id of
                    None \<Rightarrow> ''Unknown Department''
                  | Some target_dept \<Rightarrow>
                      (case dp_name target_dept of
                         None \<Rightarrow> ''Unknown Department'' | Some nm \<Rightarrow> nm));
               metadata = [(''from_department_id'', from_department_id),
                           (''to_department_id'', to_department_id),
                           (''forwarded_by'', forwarded_by_name)]
           in if truthy assigned_user_id
              then (case try_notify
                           (create_notification e (str_opt assigned_user_id) (d_id doc)
                              DOCUMENT_FORWARDED
                              (''Document Forwarded to You: '' @ d_document_number doc)
                              ([CHR 0x27] @ d_title doc @ [CHR 0x27]
                                 @ '' has been forwarded to you by '' @ forwarded_by_name)
                              metadata s) of
                      (ns, s1) \<Rightarrow> (Inr ns, s1))
              else (case notify_users
                           (\<lambda>u. create_notification e (u_id u) (d_id doc) DOCUMENT_FORWARDED
                                  (''Document Forwarded to '' @ dept_name @ '': ''
                                     @ d_document_number doc)
                                  ([CHR 0x27] @ d_title doc @ [CHR 0x27]
                                     @ '' has been forwarded to your department by ''
                                     @ forwarded_by_name)
                                  metadata)
                           (find_by_department to_department_id s) s of
                      (ns, s1) \<Rightarrow> (Inr ns, s1))))"

fun status_value :: "DocumentStatus \<Rightarrow> string" where
  "status_value DRAFT = ''draft''"
| "status_value PENDING = ''pending''"
| "status_value IN_PROGRESS = ''in_progress''"
| "status_value COMPLETED = ''completed''"
| "status_value ARCHIVED = ''archived''"

definition notify_status_changed ::
  "env \<Rightarrow> document option \<Rightarrow> DocumentStatus \<Rightarrow> DocumentStatus \<Rightarrow> string \<Rightarrow> db
     \<Rightarrow> (error + notification list) \<times> db" where
  "notify_status_changed e document old_status new_status changed_by_name s =
     (case document of
        None \<Rightarrow> (Inl AttributeError, s)
      | Some doc \<Rightarrow>
          (let creator_id = d_creator_id doc;
               assigned_user_id = d_assigned_to_user_id doc;
               title = ''Status Changed: '' @ d_document_number doc;
               message = ''Document '' @ [CHR 0x27] @ d_title doc @ [CHR 0x27]
                           @ '' status changed from '' @ status_value old_status
                           @ '' to '' @ status_value new_status @ '' by '' @ changed_by_name;
               metadata = [(''old_status'', status_value old_status),
                           (''new_status'', status_value new_status),
                           (''changed_by'', changed_by_name)];
               (ns1, s1) = try_notify
                             (create_notification e creator_id (d_id doc) NT_STATUS_CHANGED
                                title message metadata s)
           in if truthy assigned_user_id \<and> str_opt assigned_user_id \<noteq> creator_id
              then (let (ns2, s2) = try_notify
                                      (create_notification e (str_opt assigned_user_id) (d_id doc)
                                         NT_STATUS_CHANGED title message metadata s1)
                    in (Inr (ns1 @ ns2), s2))
              else (Inr ns1, s1)))"

text \<open>\<^verbatim>\<open>notify_document_assigned\<close>: the created notification, or \<open>None\<close>.\<close>

definition notify_document_assigned ::
  "env \<Rightarrow> document \<Rightarrow> string \<Rightarrow> string \<Rightarrow> db \<Rightarrow> notification option \<times> db" where
  "notify_document_assigned e doc new_assignee_id assigned_by_name s =
     (case create_notification e new_assignee_id (d_id doc) DOCUMENT_RECEIVED
             (''Document Assigned to You: '' @ d_document_number doc)
             (''You have been assigned document '' @ [CHR 0x27] @ d_title doc @ [CHR 0x27]
                @ '' by '' @ assigned_by_name)
             [(''assigned_by'', assigned_by_name)] s of
        (Inl _, s1) \<Rightarrow> (None, s1)
      | (Inr notif, s1) \<Rightarrow> (Some notif, s1))"

section \<open>Notification endpoints\<close>

definition mark_notification_read ::
  "env \<Rightarrow> string \<Rightarrow> actor \<Rightarrow> db \<Rightarrow> (error + notification) \<times> db" where
  "mark_notification_read e notification_id current_user s =
     (case find_by_id n_id (notifications s) notification_id of
        None \<Rightarrow> (Inl (HTTPException HTTP_404_NOT_FOUND ''Notification not found''), s)
      | Some notification \<Rightarrow>
          if n_user_id notification \<noteq> a_id current_user
          then (Inl (HTTPException HTTP_403_FORBIDDEN
                       ''Not authorized to update this notification''), s)
          else (case mark_as_read e notification_id s of
                  (None, s1) \<Rightarrow>
                    (Inl (HTTPException HTTP_404_NOT_FOUND ''Failed to update notification''), s1)
                | (Some updated, s1) \<Rightarrow> (Inr updated, s1)))"

text \<open>The endpoint answers with the affected count inside its message.\<close>

definition mark_all_read :: "env \<Rightarrow> actor \<Rightarrow> db \<Rightarrow> (error + nat) \<times> db" where
  "mark_all_read e current_user s = mark_all_as_read e (a_id current_user) s"

section \<open>Document endpoints\<close>

text \<open>
  The request bodies. The e-mails the endpoints queue as background tasks
  after the notifications are created go to an outside mail sender and leave
  the collections as they are; they are not part of the model.
\<close>

record DocumentCreate =
  dc_title :: string
  dc_description :: string
  dc_document_type :: DocumentType
  dc_priority :: DocumentPriority
  dc_metadata :: "DocumentMetadata option"
  dc_assigned_to_user_id :: "string option"

record DocumentUpdate =
  du_title :: "string option"
  du_description :: "string option"
  du_document_type :: "DocumentType option"
  du_priority :: "DocumentPriority option"
  du_status :: "DocumentStatus option"
  du_assigned_to_user_id :: "string option"
  du_metadata :: "DocumentMetadata option"

record DocumentForward =
  df_to_department_id :: string
  df_assigned_to_user_id :: "string option"
  df_comment :: "string option"

record DocumentStatusUpdate =
  ds_status :: DocumentStatus
  ds_reason :: "string option"

definition full_name_or_unknown :: "actor \<Rightarrow> string" where
  "full_name_or_unknown usr = (case a_full_name usr of None \<Rightarrow> ''Unknown'' | Some n \<Rightarrow> n)"

definition create_document ::
  "env \<Rightarrow> DocumentCreate \<Rightarrow> actor \<Rightarrow> db \<Rightarrow> (error + document) \<times> db" where
  "create_document e document_data current_user s =
     (if truthy (dc_assigned_to_user_id document_data)
         \<and> find_by_id u_id (users s) (str_opt (dc_assigned_to_user_id document_data)) = None
      then (Inl (HTTPException HTTP_404_NOT_FOUND ''Assigned user not found''), s)
      else
        (let new_doc =
               \<lparr>nd_title = dc_title document_data,
                nd_description = dc_description document_data,
                nd_document_type = dc_document_type document_data,
                nd_priority = dc_priority document_data,
                nd_creator_id = a_id current_user,
                nd_creator_department_id = a_department_id current_user,
                nd_current_holder_department_id = a_department_id current_user,
                nd_assigned_to_user_id = dc_assigned_to_user_id document_data,
                nd_metadata = dc_metadata document_data\<rparr>
         in (case doc_create_document e new_doc s of
               (Inl err, s1) \<Rightarrow> (Inl err, s1)
             | (Inr created_document, s1) \<Rightarrow>
                 (case create_audit_entry e (d_id created_document) CREATED current_user
                         (\<lambda>h. h\<lparr>h_comment :=
                                  Some (''Document created: '' @ dc_title document_data)\<rparr>) s1 of
                    (Inl err, s2) \<Rightarrow> (Inl err, s2)
                  | (Inr _, s2) \<Rightarrow>
                      if truthy (dc_assigned_to_user_id document_data)
                      then (case notify_document_created e created_document
                                   (dc_assigned_to_user_id document_data) s2 of
                              (_, s3) \<Rightarrow> (Inr created_document, s3))
                      else (Inr created_document, s2)))))"

definition can_view :: "actor \<Rightarrow> document \<Rightarrow> bool" where
  "can_view current_user doc =
     (a_role current_user = ADMIN
      \<or> d_creator_id doc = a_id current_user
      \<or> a_department_id current_user = d_creator_department_id doc
      \<or> a_department_id current_user = d_current_holder_department_id doc)"

definition get_document :: "env \<Rightarrow> string \<Rightarrow> actor \<Rightarrow> db \<Rightarrow> (error + document) \<times> db" where
  "get_document e document_id current_user s =
     (case find_by_id d_id (documents s) document_id of
        None \<Rightarrow> (Inl (HTTPException HTTP_404_NOT_FOUND ''Document not found''), s)
      | Some doc \<Rightarrow>
          if \<not> can_view current_user doc
          then (Inl (HTTPException HTTP_403_FORBIDDEN ''Not authorized to view this document''), s)
          else (case create_audit_entry e document_id VIEWED current_user (\<lambda>h. h) s of
                  (Inl err, s1) \<Rightarrow> (Inl err, s1)
                | (Inr _, s1) \<Rightarrow> (Inr doc, s1)))"

text \<open>The \<^verbatim>\<open>update_data\<close> dictionary of \<^verbatim>\<open>update_document\<close> as a record update.\<close>

definition update_data :: "DocumentUpdate \<Rightarrow> document \<Rightarrow> document" where
  "update_data document_data d =
     (let d1 = (case du_title document_data of None \<Rightarrow> d | Some v \<Rightarrow> d\<lparr>d_title := v\<rparr>);
          d2 = (case du_description document_data of
                  None \<Rightarrow> d1 | Some v \<Rightarrow> d1\<lparr>d_description := v\<rparr>);
          d3 = (case du_document_type document_data of
                  None \<Rightarrow> d2 | Some v \<Rightarrow> d2\<lparr>d_document_type := v\<rparr>);
          d4 = (case du_priority document_data of
                  None \<Rightarrow> d3 | Some v \<Rightarrow> d3\<lparr>d_priority := v\<rparr>);
          d5 = (case du_status document_data of None \<Rightarrow> d4 | Some v \<Rightarrow> d4\<lparr>d_status := v\<rparr>);
          d6 = (case du_assigned_to_user_id document_data of
                  None \<Rightarrow> d5 | Some v \<Rightarrow> d5\<lparr>d_assigned_to_user_id := Some v\<rparr>)
      in (case du_metadata document_data of
            None \<Rightarrow> d6 | Some v \<Rightarrow> d6\<lparr>d_metadata := Some v\<rparr>))"

definition update_document ::
  "env \<Rightarrow> string \<Rightarrow> DocumentUpdate \<Rightarrow> actor \<Rightarrow> db \<Rightarrow> (error + document) \<times> db" where
  "update_document e document_id document_data current_user s =
     (case find_by_id d_id (documents s) document_id of
        None \<Rightarrow> (Inl (HTTPException HTTP_404_NOT_FOUND ''Document not found''), s)
      | Some existing_doc \<Rightarrow>
          (let is_admin = (a_role current_user = ADMIN);
               is_dept_head = (a_role current_user = DEPARTMENT_HEAD);
               is_creator = (d_creator_id existing_doc = a_id current_user);
               same_dept = (d_current_holder_department_id existing_doc
                              = a_department_id current_user);
               can_update = (is_admin \<or> is_creator \<or> (is_dept_head \<and> same_dept));
               old_assignee = d_assigned_to_user_id existing_doc;
               new_assignee = du_assigned_to_user_id document_data
           in if \<not> can_update
              then (Inl (HTTPException HTTP_403_FORBIDDEN
                           ''Not authorized to update this document''), s)
              else if new_assignee \<noteq> None
                      \<and> find_by_id u_id (users s) (str_opt new_assignee) = None
              then (Inl (HTTPException HTTP_404_NOT_FOUND ''Assigned user not found''), s)
              else (case doc_update_by_id e document_id (update_data document_data) s of
                      (None, s1) \<Rightarrow>
                        (Inl (HTTPException HTTP_404_NOT_FOUND ''Document not found''), s1)
                    | (Some updated_document, s1) \<Rightarrow>
                        (case create_audit_entry e document_id MODIFIED current_user
                                (\<lambda>h. h\<lparr>h_comment := Some ''Document updated''\<rparr>) s1 of
                           (Inl err, s2) \<Rightarrow> (Inl err, s2)
                         | (Inr _, s2) \<Rightarrow>
                             if truthy new_assignee \<and> str_opt old_assignee \<noteq> str_opt new_assignee
                             then (case notify_document_assigned e updated_document
                                          (str_opt new_assignee)
                                          (full_name_or_unknown current_user) s2 of
                                     (_, s3) \<Rightarrow> (Inr updated_document, s3))
                             else (Inr updated_document, s2)))))"

definition forward_document ::
  "env \<Rightarrow> string \<Rightarrow> DocumentForward \<Rightarrow> actor \<Rightarrow> db \<Rightarrow> (error + document) \<times> db" where
  "forward_document e document_id forward_data current_user s =
     (case find_by_id d_id (documents s) document_id of
        None \<Rightarrow> (Inl (HTTPException HTTP_404_NOT_FOUND ''Document not found''), s)
      | Some doc \<Rightarrow>
          (case find_by_id dp_id (departments s) (df_to_department_id forward_data) of
             None \<Rightarrow> (Inl (HTTPException HTTP_404_NOT_FOUND ''Target department not found''), s)
           | Some target_dept \<Rightarrow>
               (let assignee = df_assigned_to_user_id forward_data;
                    assigned_user = find_by_id u_id (users s) (str_opt assignee)
                in if truthy assignee \<and> assigned_user = None
                   then (Inl (HTTPException HTTP_404_NOT_FOUND ''Assigned user not found''), s)
                   else if truthy assignee
                           \<and> (case assigned_user of
                                 None \<Rightarrow> False
                               | Some au \<Rightarrow> str_id (u_department_id au)
                                              \<noteq> df_to_department_id forward_data)
                   then (Inl (HTTPException HTTP_400_BAD_REQUEST
                                ''Assigned user must belong to the target department''), s)
                   else
                     (let is_admin = (a_role current_user = ADMIN);
                          is_dept_head = (a_role current_user = DEPARTMENT_HEAD);
                          is_assigned = (str_opt (d_assigned_to_user_id doc) = a_id current_user);
                          same_dept = (d_current_holder_department_id doc
                                         = a_department_id current_user);
                          can_forward = (is_admin \<or> (is_dept_head \<and> same_dept) \<or> is_assigned)
                      in if \<not> can_forward
                         then (Inl (HTTPException HTTP_403_FORBIDDEN
                                      ''Not authorized to forward this document''), s)
                         else
                           (let from_department_id = d_current_holder_department_id doc;
                                (updated_document, s1) =
                                   repo_forward_document e document_id
                                     (df_to_department_id forward_data) assignee s
                            in (case create_audit_entry e document_id FORWARDED current_user
                                       (\<lambda>h. h\<lparr>h_from_department_id := Some from_department_id,
                                              h_to_department_id :=
                                                Some (df_to_department_id forward_data),
                                              h_comment := df_comment forward_data\<rparr>) s1 of
                                  (Inl err, s2) \<Rightarrow> (Inl err, s2)
                                | (Inr _, s2) \<Rightarrow>
                                    (case notify_document_forwarded e updated_document
                                            from_department_id
                                            (df_to_department_id forward_data) assignee
                                            (full_name_or_unknown current_user) s2 of
                                       (Inl err, s3) \<Rightarrow> (Inl err, s3)
                                     | (Inr _, s3) \<Rightarrow>
                                         (case updated_document of
                                            None \<Rightarrow> (Inl AttributeError, s3)
                                          | Some ud \<Rightarrow> (Inr ud, s3)))))))))"

definition update_document_status ::
  "env \<Rightarrow> string \<Rightarrow> DocumentStatusUpdate \<Rightarrow> actor \<Rightarrow> db \<Rightarrow> (error + document) \<times> db" where
  "update_document_status e document_id status_data current_user s =
     (case find_by_id d_id (documents s) document_id of
        None \<Rightarrow> (Inl (HTTPException HTTP_404_NOT_FOUND ''Document not found''), s)
      | Some doc \<Rightarrow>
          (let is_admin = (a_role current_user = ADMIN);
               is_dept_head = (a_role current_user = DEPARTMENT_HEAD);
               is_assigned = (str_opt (d_assigned_to_user_id doc) = a_id current_user);
               same_dept = (d_current_holder_department_id doc = a_department_id current_user);
               can_update_status = (is_admin \<or> (is_dept_head \<and> same_dept) \<or> is_assigned)
           in if \<not> can_update_status
              then (Inl (HTTPException HTTP_403_FORBIDDEN
                           ''Not authorized to update document status''), s)
              else
                (let old_status = d_status doc;
                     (updated_document, s1) = update_status e document_id (ds_status status_data) s
                 in (case create_audit_entry e document_id STATUS_CHANGED current_user
                            (\<lambda>h. h\<lparr>h_old_status := Some old_status,
                                   h_new_status := Some (ds_status status_data),
                                   h_status_reason := ds_reason status_data\<rparr>) s1 of
                       (Inl err, s2) \<Rightarrow> (Inl err, s2)
                     | (Inr _, s2) \<Rightarrow>
                         (case notify_status_changed e updated_document old_status
                                 (ds_status status_data) (full_name_or_unknown current_user) s2 of
                            (Inl err, s3) \<Rightarrow> (Inl err, s3)
                          | (Inr _, s3) \<Rightarrow>
                              (case updated_document of
                                 None \<Rightarrow> (Inl AttributeError, s3)
                               | Some ud \<Rightarrow> (Inr ud, s3)))))))"

text \<open>
  The archive endpoint answers \<^verbatim>\<open>{"success": True, "message": ...}\<close> with the
  number of the document as it was read before the update.
\<close>

definition archive_document :: "env \<Rightarrow> string \<Rightarrow> actor \<Rightarrow> db \<Rightarrow> (error + string) \<times> db" where
  "archive_document e document_id current_user s =
     (case find_by_id d_id (documents s) document_id of
        None \<Rightarrow> (Inl (HTTPException HTTP_404_NOT_FOUND ''Document not found''), s)
      | Some doc \<Rightarrow>
          (let is_admin = (a_role current_user = ADMIN);
               is_creator = (d_creator_id doc = a_id current_user)
           in if \<not> (is_admin \<or> is_creator)
              then (Inl (HTTPException HTTP_403_FORBIDDEN
                           ''Not authorized to archive this document''), s)
              else
                (let (_, s1) = repo_archive_document e document_id s
                 in (case create_audit_entry e document_id ACT_ARCHIVED current_user
                            (\<lambda>h. h\<lparr>h_comment := Some ''Document archived''\<rparr>) s1 of
                       (Inl err, s2) \<Rightarrow> (Inl err, s2)
                     | (Inr _, s2) \<Rightarrow>
                         (Inr (''Document '' @ d_document_number doc
                                 @ '' archived successfully''), s2)))))"

section \<open>File endpoints\<close>

text \<open>
  The blob store (GridFS) is outside the collections. \<open>stored\<close> is what
  \<^verbatim>\<open>gridfs_service.upload_file\<close> answers: the id of the stored file, or
  \<open>None\<close> when it raises. \<^verbatim>\<open>gridfs_service.delete_file\<close> catches every
  exception and its answer is not used.
\<close>

record UploadFile =
  uf_filename :: string
  uf_content_type :: string
  uf_length :: nat

definition MAX_FILE_SIZE :: nat where
  "MAX_FILE_SIZE = 50 * 1024 * 1024"

definition ALLOWED_MIME_TYPES :: "string list" where
  "ALLOWED_MIME_TYPES =
     [''application/pdf'',
      ''application/msword'',
      ''application/vnd.openxmlformats-officedocument.wordprocessingml.document'',
      ''application/vnd.ms-excel'',
      ''application/vnd.openxmlformats-officedocument.spreadsheetml.sheet'',
      ''image/jpeg'',
      ''image/png'',
      ''image/gif'',
      ''text/plain'',
      ''application/zip'']"

text \<open>
  Everything from the upload to the history entry sits in one
  \<^verbatim>\<open>try\<close> whose handler turns any exception into a 500 response.
\<close>

definition upload_file_to_document ::
  "env \<Rightarrow> string option \<Rightarrow> string \<Rightarrow> UploadFile \<Rightarrow> actor \<Rightarrow> db
     \<Rightarrow> (error + FileInfo) \<times> db" where
  "upload_file_to_document e stored document_id file current_user s =
     (case find_by_id d_id (documents s) document_id of
        None \<Rightarrow> (Inl (HTTPException HTTP_404_NOT_FOUND ''Document not found''), s)
      | Some doc \<Rightarrow>
          if \<not> can_view current_user doc
          then (Inl (HTTPException HTTP_403_FORBIDDEN
                       ''Not authorized to upload files to this document''), s)
          else if uf_length file > MAX_FILE_SIZE
          then (Inl (HTTPException HTTP_400_BAD_REQUEST ''File too large''), s)
          else if uf_content_type file \<notin> set ALLOWED_MIME_TYPES
          then (Inl (HTTPException HTTP_400_BAD_REQUEST ''File type not allowed''), s)
          else
            (case stored of
               None \<Rightarrow>
                 (Inl (HTTPException HTTP_500_INTERNAL_SERVER_ERROR ''Error uploading file''), s)
             | Some fid \<Rightarrow>
                 (let file_info = \<lparr>file_id = fid, filename = uf_filename file,
                                   content_type = uf_content_type file,
                                   size_bytes = uf_length file, uploaded_at = now e,
                                   uploaded_by = a_id current_user\<rparr>
                  in (case add_file e document_id file_info s of
                        (Inl _, s1) \<Rightarrow>
                          (Inl (HTTPException HTTP_500_INTERNAL_SERVER_ERROR
                                  ''Error uploading file''), s1)
                      | (Inr _, s1) \<Rightarrow>
                          (case create_history_entry e
                                  ((history_data document_id FILE_ADDED current_user)
                                     \<lparr>h_comment := Some (''File uploaded: '' @ uf_filename file),
                                      h_meta_file_id := Some fid,
                                      h_meta_filename := Some (uf_filename file),
                                      h_meta_size := Some (uf_length file)\<rparr>) s1 of
                             (Inl _, s2) \<Rightarrow>
                               (Inl (HTTPException HTTP_500_INTERNAL_SERVER_ERROR
                                       ''Error uploading file''), s2)
                           | (Inr _, s2) \<Rightarrow> (Inr file_info, s2))))))"

definition delete_file_from_document ::
  "env \<Rightarrow> string \<Rightarrow> string \<Rightarrow> actor \<Rightarrow> db \<Rightarrow> (error + string) \<times> db" where
  "delete_file_from_document e document_id fid current_user s =
     (case find_by_id d_id (documents s) document_id of
        None \<Rightarrow> (Inl (HTTPException HTTP_404_NOT_FOUND ''Document not found''), s)
      | Some doc \<Rightarrow>
          (case find (\<lambda>f. file_id f = fid) (d_files doc) of
             None \<Rightarrow> (Inl (HTTPException HTTP_404_NOT_FOUND ''File not found in document''), s)
           | Some found \<Rightarrow>
               (let file_name = filename found;
                    is_admin = (a_role current_user = ADMIN);
                    is_dept_head = (a_role current_user = DEPARTMENT_HEAD);
                    is_creator = (d_creator_id doc = a_id current_user);
                    same_dept = (d_current_holder_department_id doc
                                   = a_department_id current_user);
                    can_delete = (is_admin \<or> is_creator \<or> (is_dept_head \<and> same_dept))
                in if \<not> can_delete
                   then (Inl (HTTPException HTTP_403_FORBIDDEN
                                ''Not authorized to delete files from this document''), s)
                   else
                     (case remove_file e document_id fid s of
                        (Inl err, s1) \<Rightarrow> (Inl err, s1)
                      | (Inr _, s1) \<Rightarrow>
                          (case create_history_entry e
                                  ((history_data document_id FILE_REMOVED current_user)
                                     \<lparr>h_comment := Some (''File deleted: '' @ file_name),
                                      h_meta_file_id := Some fid,
                                      h_meta_filename := Some file_name\<rparr>) s1 of
                             (Inl err, s2) \<Rightarrow> (Inl err, s2)
                           | (Inr _, s2) \<Rightarrow>
                               (Inr (''File '' @ [CHR 0x27] @ file_name @ [CHR 0x27]
                                       @ '' deleted successfully''), s2))))))"

section \<open>Requests\<close>

text \<open>One request to an endpoint and its effect on the store.\<close>

datatype request =
  Create DocumentCreate
  | View string
  | Modify string DocumentUpdate
  | Forward string DocumentForward
  | ChangeStatus string DocumentStatusUpdate
  | Archive string
  | AddFile "string option" string UploadFile
  | RemoveFile string string

fun handle :: "env \<Rightarrow> actor \<Rightarrow> request \<Rightarrow> db \<Rightarrow> db" where
  "handle e usr (Create body) s = snd (create_document e body usr s)"
| "handle e usr (View i) s = snd (get_document e i usr s)"
| "handle e usr (Modify i body) s = snd (update_document e i body usr s)"
| "handle e usr (Forward i body) s = snd (forward_document e i body usr s)"
| "handle e usr (ChangeStatus i body) s = snd (update_document_status e i body usr s)"
| "handle e usr (Archive i) s = snd (archive_document e i usr s)"
| "handle e usr (AddFile stored i file) s = snd (upload_file_to_document e stored i file usr s)"
| "handle e usr (RemoveFile i fid) s = snd (delete_file_from_document e i fid usr s)"

section \<open>Order of the writes of one request\<close>

text \<open>
  The writes a lifecycle transition may attempt, read as an automaton over
  the recorded attempts: first the write to the documents, then the write to
  the history, then any number of writes to the notifications. A write to
  the documents or to the history whose exception left the repository method
  ends the request: nothing may follow it.
\<close>

datatype phase = Start | Mutated | Logged | Notifying | Aborted

fun advance :: "phase \<Rightarrow> event \<Rightarrow> phase option" where
  "advance Start (Write Documents how) = Some (if how = Raised then Aborted else Mutated)"
| "advance Mutated (Write DocumentHistory how) = Some (if how = Raised then Aborted else Logged)"
| "advance Logged (Write Notifications how) = Some Notifying"
| "advance Notifying (Write Notifications how) = Some Notifying"
| "advance p ev = None"

fun sequenced :: "phase \<Rightarrow> event list \<Rightarrow> bool" where
  "sequenced p [] = True"
| "sequenced p (ev # evs) = (case advance p ev of None \<Rightarrow> False | Some q \<Rightarrow> sequenced q evs)"

text \<open>The writes a request added to the record of attempts.\<close>

definition new_writes :: "db \<Rightarrow> db \<Rightarrow> event list" where
  "new_writes s s' = drop (length (writes s)) (writes s')"

text \<open>Only writes to the notifications.\<close>

definition notif_only :: "event list \<Rightarrow> bool" where
  "notif_only evs = list_all (\<lambda>ev. case ev of Write c how \<Rightarrow> c = Notifications) evs"

fun is_transition :: "request \<Rightarrow> bool" where
  "is_transition (View i) = False"
| "is_transition r = True"

section \<open>Reading a document several times\<close>

text \<open>
  The detail of one document read by a list of users, one request after the
  other; each request has its own environment.
\<close>

fun read_by :: "string \<Rightarrow> (env \<times> actor) list \<Rightarrow> db \<Rightarrow> (error + document) list \<times> db" where
  "read_by i [] s = ([], s)"
| "read_by i ((e, usr) # rest) s =
     (let (r, s1) = get_document e i usr s;
          (rs, s2) = read_by i rest s1
      in (r # rs, s2))"

section \<open>Runs of requests\<close>

text \<open>The stores a list of requests passes through, the first one included.\<close>

fun trail :: "(env \<times> actor \<times> request) list \<Rightarrow> db \<Rightarrow> db list" where
  "trail [] s = [s]"
| "trail ((e, usr, r) # rest) s = s # trail rest (handle e usr r s)"

text \<open>
  The document at position \<open>j\<close> of the collection carries an
  \<^verbatim>\<open>archived_at\<close>; it has the status \<^verbatim>\<open>archived\<close>.
\<close>

definition stamped :: "db \<Rightarrow> nat \<Rightarrow> bool" where
  "stamped s j = (j < length (documents s) \<and> d_archived_at (documents s ! j) \<noteq> None)"

definition archived :: "db \<Rightarrow> nat \<Rightarrow> bool" where
  "archived s j = (j < length (documents s) \<and> d_status (documents s ! j) = ARCHIVED)"

section \<open>Example data\<close>

text \<open>
  A small store used to run the operations on concrete inputs: two
  departments, two users, a clock at 1000 in the year 2025, a driver that
  never raises and numbers the records it inserts.
\<close>

definition env0 :: env where
  "env0 = \<lparr>now = 1000, year = 2025, fault = (\<lambda>k. False), fresh = (\<lambda>k. zfill 24 (dec (int k)))\<rparr>"

definition alice :: actor where
  "alice = \<lparr>a_id = ''0000000000000000000000a1'', a_department_id = ''0000000000000000000000da'',
            a_role = EMPLOYEE, a_full_name = Some ''Alice''\<rparr>"

definition note1 :: notification where
  "note1 = \<lparr>n_id = ''0000000000000000000000e1'', n_user_id = ''0000000000000000000000a1'',
            n_document_id = ''0000000000000000000000d1'', n_type = DOCUMENT_RECEIVED,
            n_title = ''t'', n_message = ''m'', n_is_read = True, n_email_sent = False,
            n_metadata = [], n_read_at = Some 7, n_created_at = 5, n_updated_at = 7\<rparr>"

definition db_read :: db where
  "db_read = \<lparr>documents = [], document_history = [], notifications = [note1], users = [],
              departments = [], document_number_unique = True, writes = []\<rparr>"

definition carol :: actor where
  "carol = \<lparr>a_id = ''0000000000000000000000c1'', a_department_id = ''0000000000000000000000da'',
            a_role = ADMIN, a_full_name = Some ''Carol''\<rparr>"

definition doc1 :: document where
  "doc1 = \<lparr>d_id = ''0000000000000000000000d1'', d_title = ''Budget'', d_description = ''Plan'',
           d_document_type = REQUEST, d_priority = MEDIUM, d_status = DRAFT,
           d_creator_id = ''0000000000000000000000a1'',
           d_creator_department_id = ''0000000000000000000000da'',
           d_current_holder_department_id = ''0000000000000000000000da'',
           d_assigned_to_user_id = None, d_metadata = None,
           d_document_number = ''DOC-2025-00001'', d_files = [],
           d_created_at = 10, d_updated_at = 10, d_archived_at = None\<rparr>"

definition dept_a :: department where
  "dept_a = \<lparr>dp_id = ''0000000000000000000000da'', dp_name = Some ''Administration''\<rparr>"

definition dept_b :: department where
  "dept_b = \<lparr>dp_id = ''0000000000000000000000db'', dp_name = Some ''Education''\<rparr>"

text \<open>An active user of department B, registered through the API (string reference).\<close>

definition member_b :: "int \<Rightarrow> user" where
  "member_b k = \<lparr>u_id = zfill 24 (dec k), u_department_id = Str ''0000000000000000000000db'',
                 u_is_active = Some True\<rparr>"

definition db1 :: db where
  "db1 = \<lparr>documents = [doc1], document_history = [], notifications = [],
          users = [member_b 100], departments = [dept_a, dept_b],
          document_number_unique = True, writes = []\<rparr>"

text \<open>Department B with 21 active users.\<close>

definition db_crowd :: db where
  "db_crowd = db1\<lparr>users := map member_b [100 .. 120]\<rparr>"

text \<open>A year in which the numbers 09999 and 10000 have been given out.\<close>

definition db_wrap :: db where
  "db_wrap = db1\<lparr>documents := [doc1\<lparr>d_document_number := ''DOC-2025-09999''\<rparr>,
                                   doc1\<lparr>d_id := ''0000000000000000000000d2'',
                                        d_document_number := ''DOC-2025-10000''\<rparr>]\<rparr>"

definition req1 :: DocumentCreate where
  "req1 = \<lparr>dc_title = ''Memo'', dc_description = ''Text'', dc_document_type = MEMO,
           dc_priority = LOW, dc_metadata = None, dc_assigned_to_user_id = None\<rparr>"

definition fwd_b :: DocumentForward where
  "fwd_b = \<lparr>df_to_department_id = ''0000000000000000000000db'', df_assigned_to_user_id = None,
            df_comment = Some ''please review''\<rparr>"

section \<open>The numbering rule as the specification words it\<close>

text \<open>
  Among the existing numbers with the current year's prefix, the trailing
  five characters are parsed as an integer; the new number is the prefix
  followed by one more than the greatest of them, zero-padded to five
  digits, and by 00001 when there is none. \<open>None\<close> when a trailing segment
  is no integer.
\<close>

definition trailing_number :: "string \<Rightarrow> int option" where
  "trailing_number t =
     (case py_int (drop (length t - 5) t) of Inl _ \<Rightarrow> None | Inr v \<Rightarrow> Some v)"

fun greatest_int :: "int option list \<Rightarrow> int option" where
  "greatest_int [] = Some 0"
| "greatest_int (x # xs) =
     (case (x, greatest_int xs) of
        (Some v, Some m) \<Rightarrow> Some (max v m)
      | _ \<Rightarrow> None)"

definition spec_document_number :: "int \<Rightarrow> string list \<Rightarrow> string option" where
  "spec_document_number y existing =
     (case greatest_int (map trailing_number (filter (starts_with (year_prefix y)) existing)) of
        None \<Rightarrow> None
      | Some m \<Rightarrow> Some (year_prefix y @ fmt_05d (m + 1)))"

section \<open>Lists\<close>

lemma find_upd_first:
  "find P xs = Some x \<Longrightarrow> (\<And>y. P (g y) = P y) \<Longrightarrow> find P (upd_first P g xs) = Some (g x)"
  by (induction xs) (auto split: if_splits)

lemma oid_note1: "ObjectId ''0000000000000000000000e1'' = Some ''0000000000000000000000e1''"
  by (simp add: ObjectId_def hexdigit_def lower_hex_def)

section \<open>Marking notifications read\<close>

text \<open>
  C9. When the user has no unread notification and the driver carries the
  write out, \<^verbatim>\<open>mark_all_read\<close> answers with an affected count of zero; the
  notifications, and with them every \<^verbatim>\<open>read_at\<close>, are what they were (the
  store differs only in the record of the attempted write).
\<close>

theorem mark_all_read_none_unread:
  assumes none: "\<forall>n\<in>set (notifications s). n_user_id n = a_id current_user \<longrightarrow> n_is_read n"
    and ok: "\<not> fault e (length (writes s))"
  shows "mark_all_read e current_user s
           = (Inr 0, s\<lparr>writes := writes s @ [Write Notifications Done]\<rparr>)
         \<and> notifications (snd (mark_all_read e current_user s)) = notifications s"
proof -
  let ?g = "\<lambda>n. n\<lparr>n_is_read := True, n_read_at := Some (now e), n_updated_at := now e\<rparr>"
  have m: "map (\<lambda>n. if n_user_id n = a_id current_user \<and> \<not> n_is_read n then ?g n else n)
             (notifications s) = notifications s"
    using none by (intro map_idI) auto
  have f: "filter (\<lambda>n. n_user_id n = a_id current_user \<and> \<not> n_is_read n \<and> ?g n \<noteq> n)
             (notifications s) = []"
    using none by (auto simp: filter_empty_conv)
  show ?thesis
    using ok
    by (simp add: mark_all_read_def mark_all_as_read_def notif_update_many_def attempt_def attempt_if_def
        Let_def m f)
qed

theorem mark_all_read_none_unread_witness:
  "list_all (\<lambda>n. n_user_id n = a_id alice \<and> n_is_read n) (notifications db_read)
   \<and> \<not> fault env0 (length (writes db_read))
   \<and> fst (mark_all_read env0 alice db_read) = Inr 0
   \<and> map n_read_at (notifications (snd (mark_all_read env0 alice db_read))) = [Some 7]"
proof -
  have h1: "\<forall>n\<in>set (notifications db_read). n_user_id n = a_id alice \<longrightarrow> n_is_read n"
    by (simp add: db_read_def note1_def alice_def)
  have h2: "\<not> fault env0 (length (writes db_read))"
    by (simp add: env0_def)
  have r: "fst (mark_all_read env0 alice db_read) = Inr 0"
      "notifications (snd (mark_all_read env0 alice db_read)) = notifications db_read"
    using mark_all_read_none_unread [OF h1 h2] by simp_all
  show ?thesis
    unfolding r using h2 by (simp add: db_read_def note1_def alice_def)
qed

text \<open>
  C10. Marking one notification read, by its owner, when it is already read:
  the call succeeds and the returned and stored notification carries the
  current time as \<^verbatim>\<open>read_at\<close>, whatever it held before. The bulk operation
  leaves every notification that is already read exactly as it was.
\<close>

theorem mark_notification_read_overwrites:
  assumes found: "find_by_id n_id (notifications s) notification_id = Some n"
    and own: "n_user_id n = a_id current_user"
    and was_read: "n_is_read n"
    and ok: "\<not> fault e (length (writes s))"
  shows "(\<exists>n' s'. mark_notification_read e notification_id current_user s = (Inr n', s')
            \<and> n_read_at n' = Some (now e) \<and> n_is_read n'
            \<and> find_by_id n_id (notifications s') notification_id = Some n')
         \<and> length (notifications (snd (mark_all_read e current_user s)))
               = length (notifications s)
         \<and> (\<forall>i < length (notifications s). n_is_read (notifications s ! i)
               \<longrightarrow> notifications (snd (mark_all_read e current_user s)) ! i
                     = notifications s ! i)"
proof -
  obtain oid where oid: "ObjectId notification_id = Some oid"
    and f: "find (\<lambda>x. n_id x = oid) (notifications s) = Some n"
    using found by (auto simp: find_by_id_def split: option.splits)
  let ?g = "\<lambda>n. n\<lparr>n_is_read := True, n_read_at := Some (now e), n_updated_at := now e\<rparr>"
  have f': "find (\<lambda>x. n_id x = oid) (upd_first (\<lambda>x. n_id x = oid) ?g (notifications s))
              = Some (?g n)"
    by (rule find_upd_first [OF f]) simp
  have single: "\<exists>n' s'. mark_notification_read e notification_id current_user s = (Inr n', s')
            \<and> n_read_at n' = Some (now e) \<and> n_is_read n'
            \<and> find_by_id n_id (notifications s') notification_id = Some n'"
    using own ok oid f f' found
    by (simp add: mark_notification_read_def mark_as_read_def notif_update_by_id_def
        attempt_def attempt_if_def Let_def find_by_id_def)
  have bulk: "length (notifications (snd (mark_all_read e current_user s)))
               = length (notifications s)
         \<and> (\<forall>i < length (notifications s). n_is_read (notifications s ! i)
               \<longrightarrow> notifications (snd (mark_all_read e current_user s)) ! i
                     = notifications s ! i)"
    by (simp add: mark_all_read_def mark_all_as_read_def notif_update_many_def attempt_def attempt_if_def
        Let_def)
  from single bulk show ?thesis by blast
qed

theorem mark_notification_read_overwrites_witness:
  "find_by_id n_id (notifications db_read) ''0000000000000000000000e1'' = Some note1
   \<and> n_user_id note1 = a_id alice \<and> n_is_read note1 \<and> n_read_at note1 = Some 7
   \<and> \<not> fault env0 (length (writes db_read))
   \<and> map n_read_at
        (notifications (snd (mark_notification_read env0 ''0000000000000000000000e1'' alice db_read)))
       = [Some 1000]
   \<and> map n_read_at (notifications (snd (mark_all_read env0 alice db_read))) = [Some 7]"
proof -
  have h1: "find_by_id n_id (notifications db_read) ''0000000000000000000000e1'' = Some note1"
    by (simp add: find_by_id_def oid_note1 db_read_def note1_def)
  have h2: "n_user_id note1 = a_id alice" by (simp add: note1_def alice_def)
  have h3: "n_is_read note1" by (simp add: note1_def)
  have h4: "\<not> fault env0 (length (writes db_read))" by (simp add: env0_def)
  have run: "mark_notification_read env0 ''0000000000000000000000e1'' alice db_read
      = (Inr (note1\<lparr>n_is_read := True, n_read_at := Some 1000, n_updated_at := 1000\<rparr>),
         db_read\<lparr>writes := [Write Notifications Done],
                  notifications := [note1\<lparr>n_is_read := True, n_read_at := Some 1000, n_updated_at := 1000\<rparr>]\<rparr>)"
    by (simp add: mark_notification_read_def mark_as_read_def notif_update_by_id_def
        attempt_def attempt_if_def Let_def find_by_id_def oid_note1 db_read_def note1_def alice_def env0_def)
  have bulk: "notifications (snd (mark_all_read env0 alice db_read)) = [note1]"
    by (simp add: mark_all_read_def mark_all_as_read_def notif_update_many_def attempt_def attempt_if_def
        Let_def db_read_def note1_def alice_def env0_def)
  show ?thesis
    using h1 h2 h3 h4 mark_notification_read_overwrites [OF h1 h2 h3 h4] run bulk
    by (simp add: note1_def)
qed

section \<open>Writes attempted by the repositories and the notifier\<close>

lemmas store_defs = attempt_def attempt_if_def next_id_def notif_create_def
  create_history_entry_def create_audit_entry_def doc_update_by_id_def doc_update_one_def
  doc_create_document_def create_notification_def try_notify_def

lemma sequenced_notifying: "notif_only evs \<Longrightarrow> sequenced Notifying evs"
  by (induction evs) (auto simp: notif_only_def split: event.splits coll.splits)

lemma sequenced_logged: "notif_only evs \<Longrightarrow> sequenced Logged evs"
  by (cases evs) (auto simp: notif_only_def sequenced_notifying split: event.splits coll.splits)

lemma try_create_writes:
  "\<exists>evs. writes (snd (try_notify (create_notification e uid did ty ti ms md s))) = writes s @ evs
         \<and> notif_only evs"
  by (simp add: store_defs notif_only_def Let_def)

lemma notify_users_writes:
  assumes "\<And>u s. \<exists>evs. writes (snd (try_notify (mk u s))) = writes s @ evs \<and> notif_only evs"
  shows "\<exists>evs. writes (snd (notify_users mk us s)) = writes s @ evs \<and> notif_only evs"
proof (induction us arbitrary: s)
  case Nil
  then show ?case by (simp add: notif_only_def)
next
  case (Cons u us)
  show ?case
  proof (cases "case u_is_active u of None \<Rightarrow> True | Some b \<Rightarrow> b")
    case False
    then show ?thesis using Cons.IH [of s] by simp
  next
    case True
    obtain n1 s1 where r1: "try_notify (mk u s) = (n1, s1)" by (cases "try_notify (mk u s)")
    obtain ns s2 where r2: "notify_users mk us s1 = (ns, s2)" by (cases "notify_users mk us s1")
    from assms [of u s] r1 obtain ev1 where e1: "writes s1 = writes s @ ev1" "notif_only ev1"
      by auto
    from Cons.IH [of s1] r2 obtain ev2 where e2: "writes s2 = writes s1 @ ev2" "notif_only ev2"
      by auto
    have "writes s2 = writes s @ (ev1 @ ev2)" "notif_only (ev1 @ ev2)"
      using e1 e2 by (simp_all add: notif_only_def)
    then show ?thesis using True r1 r2 by (auto simp del: append_assoc)
  qed
qed

lemma writes_prefix_new:
  "writes s' = writes s @ evs \<Longrightarrow> new_writes s s' = evs"
  by (simp add: new_writes_def)

lemma archive_sequenced:
  "sequenced Start (new_writes s (snd (archive_document e i usr s)))"
  by (auto simp: archive_document_def repo_archive_document_def store_defs new_writes_def Let_def
      find_by_id_def split: option.splits)

lemma notify_status_changed_writes:
  "notify_status_changed e doc old new nm s0 = (r, s3)
   \<Longrightarrow> \<exists>evs. writes s3 = writes s0 @ evs \<and> notif_only evs"
  by (auto simp: notify_status_changed_def store_defs notif_only_def Let_def
      split: option.splits prod.splits if_splits)

lemma seq_full:
  "writes s3 = writes s @ Write Documents h1 # Write DocumentHistory h2 # evs
   \<Longrightarrow> notif_only evs \<Longrightarrow> h1 \<noteq> Raised \<Longrightarrow> h2 \<noteq> Raised
   \<Longrightarrow> sequenced Start (new_writes s s3)"
  by (simp add: new_writes_def sequenced_logged)

lemma status_sequenced:
  "sequenced Start (new_writes s (snd (update_document_status e i body usr s)))"
  by (auto simp: update_document_status_def update_status_def store_defs new_writes_def Let_def
      find_by_id_def sequenced_logged
      split: option.splits prod.splits sum.splits if_splits
      dest!: notify_status_changed_writes)

lemma snd_case_pair: "snd (case p of (a, b) \<Rightarrow> (f a, b)) = snd p"
  by (cases p) simp

lemma notif_only_Nil: "notif_only []"
  by (simp add: notif_only_def)

lemma ndf_writes:
  "\<exists>evs. writes (snd (notify_document_forwarded e doc fromd tod asg nm s0)) = writes s0 @ evs
         \<and> notif_only evs"
  by (cases doc)
    (simp_all add: notify_document_forwarded_def Let_def snd_case_pair notif_only_Nil
      try_create_writes notify_users_writes [OF try_create_writes])

lemma notify_document_forwarded_writes:
  "notify_document_forwarded e doc fromd tod asg nm s0 = (r, s3)
   \<Longrightarrow> \<exists>evs. writes s3 = writes s0 @ evs \<and> notif_only evs"
  using ndf_writes [of e doc fromd tod asg nm s0] by simp

lemma doc_update_by_id_writes:
  "doc_update_by_id e i f s = (r, s1) \<Longrightarrow> ObjectId i = Some oid
   \<Longrightarrow> \<exists>h. writes s1 = writes s @ [Write Documents h] \<and> h \<noteq> Raised"
  by (auto simp: store_defs Let_def split: option.splits if_splits)

lemma create_audit_entry_writes:
  "create_audit_entry e i a u k s = (r, s1)
   \<Longrightarrow> \<exists>h. writes s1 = writes s @ [Write DocumentHistory h]
          \<and> (h = Raised \<longleftrightarrow> (\<exists>err. r = Inl err))"
  by (auto simp: store_defs Let_def split: option.splits if_splits)

lemma seq_after:
  assumes "writes s1 = writes s @ [Write Documents h1]" "h1 \<noteq> Raised"
    and "writes s2 = writes s1 @ [Write DocumentHistory h2]"
    and "writes s3 = writes s2 @ evs" "notif_only evs"
  shows "sequenced Start (new_writes s s)"
    and "sequenced Start (new_writes s s1)"
    and "sequenced Start (new_writes s s2)"
    and "h2 \<noteq> Raised \<Longrightarrow> sequenced Start (new_writes s s3)"
  using assms by (simp_all add: new_writes_def sequenced_logged)

lemma snd_case_result:
  "snd (case p of (Inl err, s3) \<Rightarrow> (Inl err, s3)
        | (Inr x, s3) \<Rightarrow> (case u of None \<Rightarrow> (Inl y, s3) | Some ud \<Rightarrow> (Inr ud, s3)))
   = snd p"
  by (cases p; cases "fst p"; cases u) auto

lemma forward_sequenced:
  "sequenced Start (new_writes s (snd (forward_document e i body usr s)))"
proof (cases "find_by_id d_id (documents s) i")
  case None
  then show ?thesis by (simp add: forward_document_def new_writes_def)
next
  case doc: (Some doc)
  then obtain oid where oid: "ObjectId i = Some oid"
    by (auto simp: find_by_id_def split: option.splits)
  show ?thesis
  proof (cases "find_by_id dp_id (departments s) (df_to_department_id body)")
    case None
    with doc show ?thesis by (simp add: forward_document_def new_writes_def)
  next
    case dept: (Some dept)
    obtain upd s1 where u: "repo_forward_document e i (df_to_department_id body)
        (df_assigned_to_user_id body) s = (upd, s1)"
      by force
    obtain r2 s2 where a: "create_audit_entry e i FORWARDED usr
        (\<lambda>h. h\<lparr>h_from_department_id := Some (d_current_holder_department_id doc),
               h_to_department_id := Some (df_to_department_id body),
               h_comment := df_comment body\<rparr>) s1 = (r2, s2)"
      by force
    define s3 where "s3 = snd (notify_document_forwarded e upd (d_current_holder_department_id doc)
        (df_to_department_id body) (df_assigned_to_user_id body) (full_name_or_unknown usr) s2)"
    have shape: "snd (forward_document e i body usr s) = s
        \<or> snd (forward_document e i body usr s) = s2 \<and> (\<exists>err. r2 = Inl err)
        \<or> snd (forward_document e i body usr s) = s3 \<and> (\<exists>v. r2 = Inr v)"
      unfolding s3_def using doc dept u a
      by (simp add: forward_document_def Let_def snd_case_result split: sum.split)
    from u oid obtain h1 where w1: "writes s1 = writes s @ [Write Documents h1]" "h1 \<noteq> Raised"
      unfolding repo_forward_document_def by (blast dest: doc_update_by_id_writes)
    from a obtain h2 where w2: "writes s2 = writes s1 @ [Write DocumentHistory h2]"
      "h2 = Raised \<longleftrightarrow> (\<exists>err. r2 = Inl err)"
      by (blast dest: create_audit_entry_writes)
    obtain evs where w3: "writes s3 = writes s2 @ evs" "notif_only evs"
      unfolding s3_def using ndf_writes by blast
    note sq = seq_after [OF w1 w2(1) w3]
    from shape show ?thesis
    proof (elim disjE conjE exE)
      assume "snd (forward_document e i body usr s) = s"
      then show ?thesis using sq(1) by simp
    next
      fix err assume "snd (forward_document e i body usr s) = s2"
      then show ?thesis using sq(3) by simp
    next
      fix v assume "snd (forward_document e i body usr s) = s3" "r2 = Inr v"
      then show ?thesis using sq(4) w2(2) by simp
    qed
  qed
qed


section \<open>Document numbers at the end of the range\<close>

text \<open>
  C4. In a year in which DOC-2025-09999 and DOC-2025-10000 exist, the
  generator reads the four characters from index 10 of each number
  (\<^verbatim>\<open>9999\<close> and \<^verbatim>\<open>0000\<close>), takes 9999 as the greatest and gives out
  DOC-2025-10000 a second time, where the rule of the specification gives
  DOC-2025-10001; under the unique index the creation then fails.
\<close>

theorem generate_document_number_repeats:
  "generate_document_number env0 db_wrap = Inr ''DOC-2025-10000''
   \<and> spec_document_number (year env0) (map d_document_number (documents db_wrap))
       = Some ''DOC-2025-10001''
   \<and> fst (create_document env0 req1 alice db_wrap) = Inl DuplicateKeyError"
  by code_simp

section \<open>Archiving\<close>

text \<open>
  C3. The creator archives a draft document: the status becomes
  \<^verbatim>\<open>archived\<close>, \<^verbatim>\<open>archived_at\<close> is stamped, one \<^verbatim>\<open>archived\<close> entry is
  written to the history, and no notification is created.
\<close>

theorem archive_document_sends_nothing:
  "fst (archive_document env0 ''0000000000000000000000d1'' alice db1)
     = Inr ''Document DOC-2025-00001 archived successfully''
   \<and> map d_status (documents (snd (archive_document env0 ''0000000000000000000000d1'' alice db1)))
       = [ARCHIVED]
   \<and> map d_archived_at
        (documents (snd (archive_document env0 ''0000000000000000000000d1'' alice db1)))
       = [Some 1000]
   \<and> map h_action
        (document_history (snd (archive_document env0 ''0000000000000000000000d1'' alice db1)))
       = [ACT_ARCHIVED]
   \<and> notifications (snd (archive_document env0 ''0000000000000000000000d1'' alice db1)) = []"
  by code_simp

end
